theory Spec2Isabelle
  imports Main "HOL-Library.Sublist" "HOL-Library.AList"
begin

section \<open>Library functions the build scripts call\<close>

subsection \<open>Node's \<^verbatim>\<open>path\<close> module (POSIX flavour)\<close>

text \<open>
  Both scripts build every file name with \<^verbatim>\<open>path.join\<close> and
  \<^verbatim>\<open>path.parse(filename).name\<close>. Paths are strings; a path is cut at
  every \<^verbatim>\<open>/\<close>, so \<^verbatim>\<open>a//b\<close> has an empty middle segment.
\<close>

fun segments :: "string \<Rightarrow> string list" where
  "segments [] = [[]]"
| "segments (c # cs) =
     (if c = CHR ''/'' then [] # segments cs
      else (case segments cs of [] \<Rightarrow> [[c]] | s # ss \<Rightarrow> (c # s) # ss))"

fun join_with :: "string \<Rightarrow> string list \<Rightarrow> string" where
  "join_with sep [] = []"
| "join_with sep [s] = s"
| "join_with sep (s # t # ss) = s @ sep @ join_with sep (t # ss)"

text \<open>
  \<^verbatim>\<open>normalizeString(path, allowAboveRoot)\<close>: empty and \<^verbatim>\<open>.\<close>
  segments are dropped; \<^verbatim>\<open>..\<close> removes the segment before it unless there is
  none or it is itself \<^verbatim>\<open>..\<close>, in which case it is kept only for a relative
  path. The accumulator holds the segments kept so far, last one first.
\<close>

fun normalize_segs :: "bool \<Rightarrow> string list \<Rightarrow> string list \<Rightarrow> string list" where
  "normalize_segs allowAboveRoot acc [] = rev acc"
| "normalize_segs allowAboveRoot acc (s # ss) =
     (if s = [] \<or> s = ''.'' then normalize_segs allowAboveRoot acc ss
      else if s = ''..'' then
        (if acc \<noteq> [] \<and> hd acc \<noteq> ''..'' then normalize_segs allowAboveRoot (tl acc) ss
         else if allowAboveRoot then normalize_segs allowAboveRoot (''..'' # acc) ss
         else normalize_segs allowAboveRoot acc ss)
      else normalize_segs allowAboveRoot (s # acc) ss)"

definition normalizeString :: "string \<Rightarrow> bool \<Rightarrow> string" where
  "normalizeString p allowAboveRoot =
     join_with ''/'' (normalize_segs allowAboveRoot [] (segments p))"

definition path_normalize :: "string \<Rightarrow> string" where
  "path_normalize p =
     (if p = [] then ''.''
      else
        let isAbsolute = (hd p = CHR ''/'');
            trailingSeparator = (last p = CHR ''/'');
            q = normalizeString p (\<not> isAbsolute)
        in if q = [] then
             (if isAbsolute then ''/'' else if trailingSeparator then ''./'' else ''.'')
           else (if isAbsolute then ''/'' else []) @ q @
                (if trailingSeparator then ''/'' else []))"

definition path_join :: "string list \<Rightarrow> string" where
  "path_join args =
     (let parts = filter (\<lambda>a. a \<noteq> []) args
      in if parts = [] then ''.'' else path_normalize (join_with ''/'' parts))"

text \<open>
  \<^verbatim>\<open>path.parse(p).name\<close>: the last component of the path without its
  extension. The extension starts at the last dot of the component, except that a
  component with no dot, one whose only dot is its first character, and the component
  \<^verbatim>\<open>..\<close> have no extension.
\<close>

definition path_base :: "string \<Rightarrow> string" where
  "path_base p =
     rev (takeWhile (\<lambda>c. c \<noteq> CHR ''/'') (dropWhile (\<lambda>c. c = CHR ''/'') (rev p)))"

definition parse_name :: "string \<Rightarrow> string" where
  "parse_name p =
     (let b = path_base p;
          ext = takeWhile (\<lambda>c. c \<noteq> CHR ''.'') (rev b);
          startDot = length b - length ext - 1
      in if CHR ''.'' \<notin> set b \<or> startDot = 0 \<or> b = ''..'' then b
         else take startDot b)"

subsection \<open>\<^verbatim>\<open>String.prototype.replace\<close> with a regular expression without the g flag\<close>

text \<open>
  The one regular expression used for rewriting is a sequence of literal characters
  (every metacharacter in it is escaped), so it matches exactly the occurrences of one
  string, and \<^verbatim>\<open>replace\<close> looks for the leftmost one.
\<close>

fun index_of :: "string \<Rightarrow> string \<Rightarrow> nat option" where
  "index_of pat [] = (if pat = [] then Some 0 else None)"
| "index_of pat (c # cs) =
     (if prefix pat (c # cs) then Some 0 else map_option Suc (index_of pat cs))"

text \<open>
  The replacement is a template: \<^verbatim>\<open>$$\<close> stands for a dollar sign,
  \<^verbatim>\<open>$&\<close> for the match, \<^verbatim>\<open>$`\<close> and \<^verbatim>\<open>$'\<close> for the text before and
  after it. With no capture group in the pattern every other \<^verbatim>\<open>$\<close> is literal.
\<close>

fun get_substitution :: "string \<Rightarrow> string \<Rightarrow> string \<Rightarrow> string \<Rightarrow> string" where
  "get_substitution matched pre post [] = []"
| "get_substitution matched pre post [c] = [c]"
| "get_substitution matched pre post (c # d # cs) =
     (if c = CHR ''$'' \<and> d = CHR ''$'' then CHR ''$'' # get_substitution matched pre post cs
      else if c = CHR ''$'' \<and> d = CHR ''&'' then matched @ get_substitution matched pre post cs
      else if c = CHR ''$'' \<and> d = CHR ''`'' then pre @ get_substitution matched pre post cs
      else if c = CHR ''$'' \<and> d = CHR 0x27 then post @ get_substitution matched pre post cs
      else c # get_substitution matched pre post (d # cs))"

definition js_replace :: "string \<Rightarrow> string \<Rightarrow> string \<Rightarrow> string" where
  "js_replace pat template s =
     (case index_of pat s of
        None \<Rightarrow> s
      | Some i \<Rightarrow>
          take i s
          @ get_substitution pat (take i s) (drop (i + length pat) s) template
          @ drop (i + length pat) s)"

section \<open>The HTML rewrite of build-cloudflare.js\<close>

text \<open>
  The text matched by the regular expression of \<^verbatim>\<open>updateHtmlForOptimizedImages\<close>
  (the expression with its escapes removed), and the template literal that replaces it
  (\<^verbatim>\<open>\`\<close> and \<^verbatim>\<open>\$\<close> of the source are a backquote and a dollar sign).
\<close>

definition img_fragment :: string where
  \<open>img_fragment =
     ''slide.innerHTML = `<div class="slide-inner"><img src="pages/page${i}.jpg" /></div>`;''\<close>

definition picture_block :: string where
  \<open>picture_block =
     ''slide.innerHTML = `<div class="slide-inner">\<newline>''
   @ ''        <picture>\<newline>''
   @ ''          <source media="(max-width: 768px)" srcset="pages/page${i}-mobile.webp" type="image/webp">\<newline>''
   @ ''          <source media="(max-width: 1024px)" srcset="pages/page${i}-tablet.webp" type="image/webp">\<newline>''
   @ ''          <source srcset="pages/page${i}-desktop.webp" type="image/webp">\<newline>''
   @ ''          <source media="(max-width: 768px)" srcset="pages/page${i}-mobile.jpg">\<newline>''
   @ ''          <source media="(max-width: 1024px)" srcset="pages/page${i}-tablet.jpg">\<newline>''
   @ ''          <img src="pages/page${i}-desktop.jpg" />\<newline>''
   @ ''        </picture>\<newline>''
   @ ''      </div>`;''\<close>

definition rewrite_html :: "bool \<Rightarrow> string \<Rightarrow> string" where
  "rewrite_html useOptimized html =
     (if useOptimized then js_replace img_fragment picture_block html else html)"


section \<open>The world the scripts run in\<close>

subsection \<open>File system\<close>

text \<open>
  A file system is an association list from canonical path names (normalised, no
  trailing separator, relative to the working directory or absolute) to what is
  stored there. The working directory and the root always exist. Every operation
  takes the path as the script passes it and resolves it first. File contents and
  names are byte strings. A failing operation throws; the thrown value is the
  \<open>Inl\<close> result.
\<close>

datatype node = File string | Dir

type_synonym fsys = "(string \<times> node) list"

datatype errno = ENOENT | ENOTDIR | EISDIR | EEXIST

datatype js_error =
    SystemError errno string  \<comment> \<open>thrown by an \<^verbatim>\<open>fs\<close> call, with the path it was given\<close>
  | Failure string  \<comment> \<open>thrown by an external tool, with its message\<close>

definition canon :: "string \<Rightarrow> string" where
  "canon p =
     (let n = path_normalize p
      in if n \<noteq> ''/'' \<and> last n = CHR ''/'' then butlast n else n)"

definition entry_name :: "string \<Rightarrow> string" where
  "entry_name k = rev (takeWhile (\<lambda>c. c \<noteq> CHR ''/'') (rev k))"

definition parent :: "string \<Rightarrow> string" where
  "parent k =
     (let d = rev (drop 1 (dropWhile (\<lambda>c. c \<noteq> CHR ''/'') (rev k)))
      in if CHR ''/'' \<notin> set k then ''.'' else if d = [] then ''/'' else d)"

definition child_key :: "string \<Rightarrow> string \<Rightarrow> string" where
  "child_key d n =
     (if d = ''.'' then n else if d = ''/'' then ''/'' @ n else d @ ''/'' @ n)"

definition simple_name :: "string \<Rightarrow> bool" where
  "simple_name n \<longleftrightarrow> n \<noteq> [] \<and> CHR ''/'' \<notin> set n \<and> n \<noteq> ''.'' \<and> n \<noteq> ''..''"

definition node_at :: "fsys \<Rightarrow> string \<Rightarrow> node option" where
  "node_at fs k = (if k = ''.'' \<or> k = ''/'' then Some Dir else map_of fs k)"

definition fs_lookup :: "fsys \<Rightarrow> string \<Rightarrow> node option" where
  "fs_lookup fs p = node_at fs (canon p)"

definition existsSync :: "string \<Rightarrow> fsys \<Rightarrow> bool" where
  "existsSync p fs \<longleftrightarrow> fs_lookup fs p \<noteq> None"

definition writeFileSync :: "string \<Rightarrow> string \<Rightarrow> fsys \<Rightarrow> js_error + fsys" where
  "writeFileSync p data fs =
     (let k = canon p in
      case node_at fs k of
        Some Dir \<Rightarrow> Inl (SystemError EISDIR p)
      | _ \<Rightarrow>
         (case node_at fs (parent k) of
            None \<Rightarrow> Inl (SystemError ENOENT p)
          | Some (File _) \<Rightarrow> Inl (SystemError ENOTDIR p)
          | Some Dir \<Rightarrow> Inr (AList.update k (File data) fs)))"

definition readFileSync :: "string \<Rightarrow> fsys \<Rightarrow> js_error + string" where
  "readFileSync p fs =
     (case fs_lookup fs p of
        None \<Rightarrow> Inl (SystemError ENOENT p)
      | Some Dir \<Rightarrow> Inl (SystemError EISDIR p)
      | Some (File data) \<Rightarrow> Inr data)"

definition copyFileSync :: "string \<Rightarrow> string \<Rightarrow> fsys \<Rightarrow> js_error + fsys" where
  "copyFileSync src dst fs =
     (case readFileSync src fs of
        Inl e \<Rightarrow> Inl e
      | Inr data \<Rightarrow> writeFileSync dst data fs)"

definition statSync :: "string \<Rightarrow> fsys \<Rightarrow> js_error + node" where
  "statSync p fs =
     (case fs_lookup fs p of
        None \<Rightarrow> Inl (SystemError ENOENT p)
      | Some n \<Rightarrow> Inr n)"

text \<open>
  \<^verbatim>\<open>mkdirSync(p, { recursive: true })\<close> walks from the top-most directory named in
  the path down to the path itself and creates what is missing; a file in the way
  makes it throw.
\<close>

definition ancestors :: "string \<Rightarrow> string list" where
  "ancestors k = filter (\<lambda>a. a \<noteq> []) (map (join_with ''/'') (tl (prefixes (segments k))))"

fun mkdir_chain :: "string \<Rightarrow> string list \<Rightarrow> fsys \<Rightarrow> js_error + fsys" where
  "mkdir_chain p [] fs = Inr fs"
| "mkdir_chain p (k # ks) fs =
     (case node_at fs k of
        Some Dir \<Rightarrow> mkdir_chain p ks fs
      | Some (File _) \<Rightarrow> Inl (SystemError (if ks = [] then EEXIST else ENOTDIR) p)
      | None \<Rightarrow> mkdir_chain p ks (AList.update k Dir fs))"

definition mkdirSync :: "string \<Rightarrow> fsys \<Rightarrow> js_error + fsys" where
  "mkdirSync p fs = mkdir_chain p (ancestors (canon p)) fs"

text \<open>\<^verbatim>\<open>rmSync(p, { recursive: true })\<close> removes the entry and everything below it.\<close>

definition in_tree :: "string \<Rightarrow> string \<Rightarrow> bool" where
  "in_tree d k \<longleftrightarrow> k = d \<or> prefix (d @ ''/'') k"

definition rmSync :: "string \<Rightarrow> fsys \<Rightarrow> js_error + fsys" where
  "rmSync p fs =
     (if existsSync p fs then Inr (filter (\<lambda>(k, n). \<not> in_tree (canon p) k) fs)
      else Inl (SystemError ENOENT p))"

definition children :: "string \<Rightarrow> fsys \<Rightarrow> string list" where
  "children d fs =
     map entry_name
       (filter (\<lambda>k. simple_name (entry_name k) \<and> k = child_key d (entry_name k)) (map fst fs))"

definition readdirSync :: "string \<Rightarrow> fsys \<Rightarrow> js_error + string list" where
  "readdirSync p fs =
     (case fs_lookup fs p of
        None \<Rightarrow> Inl (SystemError ENOENT p)
      | Some (File _) \<Rightarrow> Inl (SystemError ENOTDIR p)
      | Some Dir \<Rightarrow> Inr (children (canon p) fs))"

subsection \<open>Console and process state\<close>

datatype console_line =
    Log string  \<comment> \<open>\<^verbatim>\<open>console.log(text)\<close>\<close>
  | Err string  \<comment> \<open>\<^verbatim>\<open>console.error(text)\<close>\<close>
  | ErrMsg string js_error  \<comment> \<open>\<^verbatim>\<open>console.error(text, error.message)\<close>\<close>
  | ErrVal js_error  \<comment> \<open>\<^verbatim>\<open>console.error(error)\<close>\<close>

record world =
  files :: fsys
  console :: "console_line list"
  spawned :: "string list"  \<comment> \<open>the shell commands given to \<^verbatim>\<open>execSync\<close>, oldest first\<close>

datatype status = Completed | Exited nat | Threw js_error

definition say :: "console_line \<Rightarrow> world \<Rightarrow> world" where
  "say l w = w\<lparr>console := console w @ [l]\<rparr>"

subsection \<open>Numbers in template literals\<close>

function string_of_nat :: "nat \<Rightarrow> string" where
  "string_of_nat n =
     (if n < 10 then [char_of (48 + n)]
      else string_of_nat (n div 10) @ [char_of (48 + n mod 10)])"
  by pat_completeness auto
termination
  by (relation "measure id") auto

subsection \<open>The image filter \<^verbatim>\<open>/\.(jpg|jpeg|png)$/i\<close>\<close>

definition ascii_lower :: "char \<Rightarrow> char" where
  "ascii_lower c =
     (let n = (of_char c :: nat) in if 65 \<le> n \<and> n \<le> 90 then char_of (n + 32) else c)"

definition is_image_file :: "string \<Rightarrow> bool" where
  "is_image_file file =
     (let l = map ascii_lower file
      in suffix ''.jpg'' l \<or> suffix ''.jpeg'' l \<or> suffix ''.png'' l)"

subsection \<open>\<^verbatim>\<open>JSON.stringify(value, null, 2)\<close>\<close>

datatype json = JString string | JObject "(string \<times> json) list"

definition hex_digit :: "nat \<Rightarrow> char" where
  "hex_digit n = (if n < 10 then char_of (48 + n) else char_of (87 + n))"

definition json_escape :: "char \<Rightarrow> string" where
  "json_escape c =
     (let n = (of_char c :: nat) in
      if n = 8 then [CHR 0x5C, CHR ''b'']
      else if n = 9 then [CHR 0x5C, CHR ''t'']
      else if n = 10 then [CHR 0x5C, CHR ''n'']
      else if n = 12 then [CHR 0x5C, CHR ''f'']
      else if n = 13 then [CHR 0x5C, CHR ''r'']
      else if n = 34 then [CHR 0x5C, CHR 0x22]
      else if n = 92 then [CHR 0x5C, CHR 0x5C]
      else if n < 32 then
        [CHR 0x5C, CHR ''u'', CHR ''0'', CHR ''0'', hex_digit (n div 16), hex_digit (n mod 16)]
      else [c])"

definition json_quote :: "string \<Rightarrow> string" where
  "json_quote s = [CHR 0x22] @ concat (map json_escape s) @ [CHR 0x22]"

fun json_stringify :: "string \<Rightarrow> json \<Rightarrow> string" where
  "json_stringify indent (JString s) = json_quote s"
| "json_stringify indent (JObject kvs) =
     (if kvs = [] then ''{}''
      else
        ''{'' @ ''\<newline>'' @ indent @ ''  ''
        @ join_with ('','' @ ''\<newline>'' @ indent @ ''  '')
            (map (\<lambda>(k, v). json_quote k @ '': '' @ json_stringify (indent @ ''  '') v) kvs)
        @ ''\<newline>'' @ indent @ ''}'')"


section \<open>build-images.js: the local image optimizer\<close>

record config =
  width :: nat
  quality :: nat
  suffix :: string

definition configs :: "(string \<times> config) list" where
  "configs =
     [(''mobile'', \<lparr>width = 800, quality = 75, suffix = ''-mobile''\<rparr>),
      (''tablet'', \<lparr>width = 1200, quality = 80, suffix = ''-tablet''\<rparr>),
      (''desktop'', \<lparr>width = 1920, quality = 85, suffix = ''-desktop''\<rparr>),
      (''thumbnail'', \<lparr>width = 300, quality = 70, suffix = ''-thumb''\<rparr>)]"

text \<open>
  What an optimizing function returns for one image and one preset:
  \<^verbatim>\<open>{ webp, jpeg }\<close> or \<^verbatim>\<open>{ original }\<close>.
\<close>

datatype result = Optimized string string | Original string

text \<open>
  The external converter is a parameter: given the shell command it answers with
  the message of the error \<^verbatim>\<open>execSync\<close> throws, or with the bytes it writes to
  its output file. \<open>target\<close> is the output file named in the command, if any.
\<close>

type_synonym tool = "string \<Rightarrow> string + string"

definition execSync :: "tool \<Rightarrow> string \<Rightarrow> string option \<Rightarrow> world \<Rightarrow> (js_error + unit) \<times> world" where
  "execSync tool command target w =
     (let w1 = w\<lparr>spawned := spawned w @ [command]\<rparr> in
      case tool command of
        Inl msg \<Rightarrow> (Inl (Failure msg), w1)
      | Inr data \<Rightarrow>
         (case target of
            None \<Rightarrow> (Inr (), w1)
          | Some out \<Rightarrow>
             (case writeFileSync out data (files w1) of
                Inl e \<Rightarrow> (Inl e, w1)
              | Inr fs \<Rightarrow> (Inr (), w1\<lparr>files := fs\<rparr>))))"

definition checkImageMagick :: "tool \<Rightarrow> world \<Rightarrow> bool \<times> world" where
  "checkImageMagick tool w =
     (case execSync tool ''convert -version'' None w of
        (Inr _, w1) \<Rightarrow> (True, w1)
      | (Inl _, w1) \<Rightarrow>
          (False,
           say (Err ''Windows: Download from https://imagemagick.org/'')
             (say (Err ''Ubuntu: sudo apt-get install imagemagick'')
               (say (Err ''macOS: brew install imagemagick'')
                 (say (Err ''ImageMagick not found. Please install it:'') w1)))))"

definition webp_command :: "string \<Rightarrow> config \<Rightarrow> string \<Rightarrow> string" where
  \<open>webp_command inputPath config outputPath =
     ''convert "'' @ inputPath @ ''" -resize '' @ string_of_nat (width config)
     @ ''x -quality '' @ string_of_nat (quality config)
     @ '' -format webp "'' @ outputPath @ ''"''\<close>

definition jpeg_command :: "string \<Rightarrow> config \<Rightarrow> string \<Rightarrow> string" where
  \<open>jpeg_command inputPath config jpegOutputPath =
     ''convert "'' @ inputPath @ ''" -resize '' @ string_of_nat (width config)
     @ ''x -quality '' @ string_of_nat (quality config)
     @ '' "'' @ jpegOutputPath @ ''"''\<close>

definition optimizeImage ::
    "tool \<Rightarrow> string \<Rightarrow> string \<Rightarrow> string \<Rightarrow> config \<Rightarrow> world \<Rightarrow> result option \<times> world" where
  "optimizeImage tool inputPath outputDir filename config w =
     (let nameWithoutExt = parse_name filename;
          outputPath = path_join [outputDir, nameWithoutExt @ suffix config @ ''.webp'']
      in
      case execSync tool (webp_command inputPath config outputPath) (Some outputPath) w of
        (Inl e, w1) \<Rightarrow> (None, say (ErrMsg (''Error processing '' @ filename @ '':'') e) w1)
      | (Inr _, w1) \<Rightarrow>
         (let jpegOutputPath = path_join [outputDir, nameWithoutExt @ suffix config @ ''.jpg'']
          in
          case execSync tool (jpeg_command inputPath config jpegOutputPath) (Some jpegOutputPath) w1 of
            (Inl e, w2) \<Rightarrow> (None, say (ErrMsg (''Error processing '' @ filename @ '':'') e) w2)
          | (Inr _, w2) \<Rightarrow> (Some (Optimized outputPath jpegOutputPath), w2)))"

text \<open>
  \<open>results\<close> is the object built in memory: own properties in insertion order.
  No key is an array index or \<^verbatim>\<open>__proto__\<close> (file names passed the image filter,
  preset names are the four above), so assignment is plain insertion or update.
\<close>

type_synonym results = "(string \<times> (string \<times> result) list) list"

text \<open>The bodies of the two \<^verbatim>\<open>forEach\<close> callbacks, and the loops as folds.\<close>

definition optimize_preset ::
    "tool \<Rightarrow> string \<Rightarrow> string \<Rightarrow> string \<Rightarrow> string \<times> config
       \<Rightarrow> results \<times> world \<Rightarrow> results \<times> world" where
  "optimize_preset tool inputPath outputBaseDir filename entry st =
     (case (entry, st) of ((configName, config), (results, w)) \<Rightarrow>
        (let outputDir = path_join [outputBaseDir, configName] in
         case optimizeImage tool inputPath outputDir filename config w of
           (Some r, w1) \<Rightarrow> (AList.map_entry filename (AList.update configName r) results, w1)
         | (None, w1) \<Rightarrow> (results, w1)))"

definition process_image ::
    "tool \<Rightarrow> string \<Rightarrow> string \<Rightarrow> nat \<Rightarrow> string
       \<Rightarrow> nat \<times> results \<times> world \<Rightarrow> nat \<times> results \<times> world" where
  "process_image tool sourceDir outputBaseDir len filename st =
     (case st of (processedCount, results, w) \<Rightarrow>
        (let inputPath = path_join [sourceDir, filename];
             w1 = say (Log (''Processing '' @ filename @ ''...'')) w;
             results1 = AList.update filename [] results
         in
         case fold (optimize_preset tool inputPath outputBaseDir filename) configs (results1, w1) of
           (results2, w2) \<Rightarrow>
             (processedCount + 1, results2,
              say (Log (''Processed '' @ string_of_nat (processedCount + 1) @ ''/''
                         @ string_of_nat len @ '': '' @ filename)) w2)))"

definition process_images ::
    "tool \<Rightarrow> string \<Rightarrow> string \<Rightarrow> string list \<Rightarrow> world \<Rightarrow> nat \<times> results \<times> world" where
  "process_images tool sourceDir outputBaseDir imageFiles w =
     fold (process_image tool sourceDir outputBaseDir (length imageFiles)) imageFiles (0, [], w)"

fun create_output_dirs :: "string \<Rightarrow> string list \<Rightarrow> fsys \<Rightarrow> js_error + fsys" where
  "create_output_dirs outputBaseDir [] fs = Inr fs"
| "create_output_dirs outputBaseDir (configName # rest) fs =
     (let outputDir = path_join [outputBaseDir, configName] in
      if \<not> existsSync outputDir fs then
        (case mkdirSync outputDir fs of
           Inl e \<Rightarrow> Inl e
         | Inr fs1 \<Rightarrow> create_output_dirs outputBaseDir rest fs1)
      else create_output_dirs outputBaseDir rest fs)"

definition result_json :: "result \<Rightarrow> json" where
  "result_json r =
     (case r of
        Optimized webp jpeg \<Rightarrow> JObject [(''webp'', JString webp), (''jpeg'', JString jpeg)]
      | Original original \<Rightarrow> JObject [(''original'', JString original)])"

definition results_json :: "results \<Rightarrow> json" where
  "results_json results =
     JObject (map (\<lambda>(filename, entry).
                (filename, JObject (map (\<lambda>(configName, r). (configName, result_json r)) entry)))
              results)"

text \<open>
  \<^verbatim>\<open>showSizeComparison\<close> is modelled by the heading it prints and the file-system
  calls it makes, any of which may throw. The three report lines are computed in
  floating point from the sizes \<^verbatim>\<open>statSync\<close> reports and are left out.
\<close>

fun stat_each :: "string \<Rightarrow> string list \<Rightarrow> fsys \<Rightarrow> js_error + unit" where
  "stat_each dir [] fs = Inr ()"
| "stat_each dir (file # rest) fs =
     (case statSync (path_join [dir, file]) fs of
        Inl e \<Rightarrow> Inl e
      | Inr _ \<Rightarrow> stat_each dir rest fs)"

fun stat_outputs :: "string \<Rightarrow> string list \<Rightarrow> fsys \<Rightarrow> js_error + unit" where
  "stat_outputs outputBaseDir [] fs = Inr ()"
| "stat_outputs outputBaseDir (configName # rest) fs =
     (let configDir = path_join [outputBaseDir, configName] in
      if existsSync configDir fs then
        (case readdirSync configDir fs of
           Inl e \<Rightarrow> Inl e
         | Inr names \<Rightarrow>
            (case stat_each configDir names fs of
               Inl e \<Rightarrow> Inl e
             | Inr _ \<Rightarrow> stat_outputs outputBaseDir rest fs))
      else stat_outputs outputBaseDir rest fs)"

definition showSizeComparison :: "string \<Rightarrow> string \<Rightarrow> world \<Rightarrow> status \<times> world" where
  "showSizeComparison sourceDir outputBaseDir w =
     (let w1 = say (Log ''\<newline>Size comparison:'') w in
      case readdirSync sourceDir (files w1) of
        Inl e \<Rightarrow> (Threw e, w1)
      | Inr names \<Rightarrow>
         (case stat_each sourceDir (filter is_image_file names) (files w1) of
            Inl e \<Rightarrow> (Threw e, w1)
          | Inr _ \<Rightarrow>
             (case stat_outputs outputBaseDir (map fst configs) (files w1) of
                Inl e \<Rightarrow> (Threw e, w1)
              | Inr _ \<Rightarrow> (Completed, w1))))"

definition createOptimizedImages :: "tool \<Rightarrow> string \<Rightarrow> string \<Rightarrow> world \<Rightarrow> status \<times> world" where
  "createOptimizedImages tool sourceDir outputBaseDir w =
     (case checkImageMagick tool w of
        (False, w1) \<Rightarrow> (Exited 1, w1)
      | (True, w1) \<Rightarrow>
         (let w2 = say (Log ''Starting image optimization...'') w1 in
          case create_output_dirs outputBaseDir (map fst configs) (files w2) of
            Inl e \<Rightarrow> (Threw e, w2)
          | Inr fs3 \<Rightarrow>
             (let w3 = w2\<lparr>files := fs3\<rparr> in
              case readdirSync sourceDir (files w3) of
                Inl e \<Rightarrow> (Threw e, w3)
              | Inr names \<Rightarrow>
                 (let imageFiles = filter is_image_file names;
                      w4 = say (Log (''Found '' @ string_of_nat (length imageFiles)
                                      @ '' images to process'')) w3;
                      (processedCount, results, w5) =
                        process_images tool sourceDir outputBaseDir imageFiles w4;
                      manifestPath = path_join [outputBaseDir, ''image-manifest.json'']
                  in
                  case writeFileSync manifestPath (json_stringify [] (results_json results))
                         (files w5) of
                    Inl e \<Rightarrow> (Threw e, w5)
                  | Inr fs6 \<Rightarrow>
                     (let w6 = w5\<lparr>files := fs6\<rparr>;
                          w7 = say (Log ''\<newline>Optimization complete!'') w6;
                          w8 = say (Log (''Processed '' @ string_of_nat processedCount
                                          @ '' images'')) w7;
                          w9 = say (Log (''Manifest saved to: '' @ manifestPath)) w8
                      in showSizeComparison sourceDir outputBaseDir w9)))))"

text \<open>
  The script's main part: \<^verbatim>\<open>process.argv[2] || './pages'\<close> and
  \<^verbatim>\<open>process.argv[3] || './optimized-images'\<close>; an absent or empty argument gives
  the default.
\<close>

definition or_default :: "string option \<Rightarrow> string \<Rightarrow> string" where
  "or_default arg d = (case arg of None \<Rightarrow> d | Some a \<Rightarrow> if a = [] then d else a)"

definition build_images :: "tool \<Rightarrow> string option \<Rightarrow> string option \<Rightarrow> world \<Rightarrow> status \<times> world" where
  "build_images tool argv2 argv3 w =
     (let sourceDir = or_default argv2 ''./pages'';
          outputDir = or_default argv3 ''./optimized-images''
      in if \<not> existsSync sourceDir (files w) then
           (Exited 1, say (Err (''Source directory not found: '' @ sourceDir)) w)
         else createOptimizedImages tool sourceDir outputDir w)"


section \<open>build-cloudflare.js: the packaging pipeline\<close>

definition cloudflare_configs :: "(string \<times> config) list" where
  "cloudflare_configs =
     [(''mobile'', \<lparr>width = 800, quality = 75, suffix = ''-mobile''\<rparr>),
      (''tablet'', \<lparr>width = 1200, quality = 80, suffix = ''-tablet''\<rparr>),
      (''desktop'', \<lparr>width = 1920, quality = 85, suffix = ''-desktop''\<rparr>)]"

text \<open>
  The image library is a parameter as well: from the input path, what is stored
  there, the target width, the quality and the output format it gives the message
  of the error it throws or the encoded bytes, which \<^verbatim>\<open>toFile\<close> writes. The resize
  options (\<^verbatim>\<open>withoutEnlargement\<close>, \<^verbatim>\<open>fit: 'inside'\<close>) are the same in every call.
\<close>

datatype format = WebP | Jpeg

type_synonym sharp = "string \<Rightarrow> node option \<Rightarrow> nat \<Rightarrow> nat \<Rightarrow> format \<Rightarrow> string + string"

definition sharp_toFile ::
    "sharp \<Rightarrow> string \<Rightarrow> config \<Rightarrow> format \<Rightarrow> string \<Rightarrow> fsys \<Rightarrow> js_error + fsys" where
  "sharp_toFile sharp inputPath config fmt output fs =
     (case sharp inputPath (fs_lookup fs inputPath) (width config) (quality config) fmt of
        Inl msg \<Rightarrow> Inl (Failure msg)
      | Inr data \<Rightarrow> writeFileSync output data fs)"

definition sharp_fallback ::
    "string \<Rightarrow> string \<Rightarrow> string \<Rightarrow> js_error \<Rightarrow> world \<Rightarrow> (js_error + result) \<times> world" where
  "sharp_fallback inputPath outputDir filename error w =
     (let w1 = say (ErrMsg (''Error processing '' @ filename @ '' with Sharp:'') error) w;
          fallbackOutput = path_join [outputDir, filename]
      in
      case copyFileSync inputPath fallbackOutput (files w1) of
        Inl e \<Rightarrow> (Inl e, w1)
      | Inr fs \<Rightarrow> (Inr (Original fallbackOutput), w1\<lparr>files := fs\<rparr>))"

definition optimizeWithSharp ::
    "sharp \<Rightarrow> string \<Rightarrow> string \<Rightarrow> string \<Rightarrow> config \<Rightarrow> world \<Rightarrow> (js_error + result) \<times> world" where
  "optimizeWithSharp sharp inputPath outputDir filename config w =
     (let nameWithoutExt = parse_name filename;
          webpOutput = path_join [outputDir, nameWithoutExt @ suffix config @ ''.webp''];
          jpegOutput = path_join [outputDir, nameWithoutExt @ suffix config @ ''.jpg'']
      in
      case sharp_toFile sharp inputPath config WebP webpOutput (files w) of
        Inl e \<Rightarrow> sharp_fallback inputPath outputDir filename e w
      | Inr fs1 \<Rightarrow>
         (case sharp_toFile sharp inputPath config Jpeg jpegOutput fs1 of
            Inl e \<Rightarrow> sharp_fallback inputPath outputDir filename e (w\<lparr>files := fs1\<rparr>)
          | Inr fs2 \<Rightarrow> (Inr (Optimized webpOutput jpegOutput), w\<lparr>files := fs2\<rparr>)))"

text \<open>
  The loops of \<^verbatim>\<open>buildForCloudflare\<close>. A throw ends them; what
  \<^verbatim>\<open>optimizeWithSharp\<close> returns is not used.
\<close>

fun optimize_configs ::
    "sharp \<Rightarrow> string \<times> string \<times> string \<Rightarrow> (string \<times> config) list \<Rightarrow> world
       \<Rightarrow> (js_error + unit) \<times> world" where
  "optimize_configs sharp io [] w = (Inr (), w)"
| "optimize_configs sharp io (entry # rest) w =
     (case optimizeWithSharp sharp (fst io) (fst (snd io)) (snd (snd io)) (snd entry) w of
        (Inl e, w1) \<Rightarrow> (Inl e, w1)
      | (Inr _, w1) \<Rightarrow> optimize_configs sharp io rest w1)"

fun optimize_files ::
    "sharp \<Rightarrow> string \<times> string \<Rightarrow> string list \<Rightarrow> world \<Rightarrow> (js_error + unit) \<times> world" where
  "optimize_files sharp dirs [] w = (Inr (), w)"
| "optimize_files sharp dirs (filename # rest) w =
     (let inputPath = path_join [fst dirs, filename];
          w1 = say (Log (''Optimizing '' @ filename @ ''...'')) w
      in
      case optimize_configs sharp (inputPath, snd dirs, filename) cloudflare_configs w1 of
        (Inl e, w2) \<Rightarrow> (Inl e, w2)
      | (Inr _, w2) \<Rightarrow> optimize_files sharp dirs rest w2)"

fun copy_files :: "string \<times> string \<Rightarrow> string list \<Rightarrow> fsys \<Rightarrow> (js_error + unit) \<times> fsys" where
  "copy_files dirs [] fs = (Inr (), fs)"
| "copy_files dirs (filename # rest) fs =
     (let inputPath = path_join [fst dirs, filename];
          outputPath = path_join [snd dirs, filename]
      in
      case copyFileSync inputPath outputPath fs of
        Inl e \<Rightarrow> (Inl e, fs)
      | Inr fs1 \<Rightarrow> copy_files dirs rest fs1)"

definition updateHtmlForOptimizedImages :: "string \<Rightarrow> bool \<Rightarrow> fsys \<Rightarrow> js_error + fsys" where
  "updateHtmlForOptimizedImages buildDir useOptimized fs =
     (let htmlPath = path_join [buildDir, ''index.html''] in
      case readFileSync htmlPath fs of
        Inl e \<Rightarrow> Inl e
      | Inr html \<Rightarrow> writeFileSync htmlPath (rewrite_html useOptimized html) fs)"

definition headersContent :: string where
  "headersContent =
     ''# Cache images for 1 year\<newline>''
   @ ''/pages/*\<newline>''
   @ ''  Cache-Control: public, max-age=31536000, immutable\<newline>''
   @ ''\<newline>''
   @ ''# Cache HTML for 1 hour\<newline>''
   @ ''/*.html\<newline>''
   @ ''  Cache-Control: public, max-age=3600\<newline>''
   @ ''\<newline>''
   @ ''# Enable compression\<newline>''
   @ ''/*\<newline>''
   @ ''  X-Content-Type-Options: nosniff\<newline>''
   @ ''  X-Frame-Options: DENY\<newline>''
   @ ''  X-XSS-Protection: 1; mode=block\<newline>''"

definition createHeadersFile :: "string \<Rightarrow> fsys \<Rightarrow> js_error + fsys" where
  "createHeadersFile buildDir fs = writeFileSync (path_join [buildDir, ''_headers'']) headersContent fs"

text \<open>
  \<^verbatim>\<open>buildForCloudflare\<close>, in three parts: cleaning the build directory, the steps
  up to the image loop, and the image loop with the two closing steps.
  \<open>library\<close> is \<open>None\<close> when \<^verbatim>\<open>require('sharp')\<close> throws.
\<close>

definition clean_build_dir :: "string \<Rightarrow> fsys \<Rightarrow> js_error + fsys" where
  "clean_build_dir buildDir fs =
     (case (if existsSync buildDir fs then rmSync buildDir fs else Inr fs) of
        Inl e \<Rightarrow> Inl e
      | Inr fs1 \<Rightarrow> mkdirSync buildDir fs1)"

definition process_pages ::
    "sharp option \<Rightarrow> string \<Rightarrow> string \<Rightarrow> string list \<Rightarrow> world \<Rightarrow> (js_error + unit) \<times> world" where
  "process_pages library pagesDir optimizedDir imageFiles w =
     (case library of
        Some sharp \<Rightarrow> optimize_files sharp (pagesDir, optimizedDir) imageFiles w
      | None \<Rightarrow>
         (case copy_files (pagesDir, optimizedDir) imageFiles (files w) of
            (r, fs) \<Rightarrow> (r, w\<lparr>files := fs\<rparr>)))"

definition finish_build :: "string \<Rightarrow> bool \<Rightarrow> world \<Rightarrow> (js_error + unit) \<times> world" where
  "finish_build buildDir useSharp w =
     (case updateHtmlForOptimizedImages buildDir useSharp (files w) of
        Inl e \<Rightarrow> (Inl e, w)
      | Inr fs1 \<Rightarrow>
         (case createHeadersFile buildDir fs1 of
            Inl e \<Rightarrow> (Inl e, w\<lparr>files := fs1\<rparr>)
          | Inr fs2 \<Rightarrow>
             (Inr (),
              say (Log ''Build complete! Deploy the ./dist directory to Cloudflare Pages.'')
                (w\<lparr>files := fs2\<rparr>))))"

definition buildForCloudflare :: "sharp option \<Rightarrow> world \<Rightarrow> (js_error + unit) \<times> world" where
  "buildForCloudflare library w =
     (let w0 = say (Log ''Building for Cloudflare Pages...'') w;
          buildDir = ''./dist'';
          sourceDir = ''./flipbook-v2''
      in
      case clean_build_dir buildDir (files w0) of
        Inl e \<Rightarrow> (Inl e, w0)
      | Inr fs1 \<Rightarrow>
         (let w1 = say (Log ''Copying static files...'') (w0\<lparr>files := fs1\<rparr>) in
          case copyFileSync (path_join [sourceDir, ''index.html''])
                 (path_join [buildDir, ''index.html'']) (files w1) of
            Inl e \<Rightarrow> (Inl e, w1)
          | Inr fs2 \<Rightarrow>
             (let optimizedDir = path_join [buildDir, ''pages''] in
              case mkdirSync optimizedDir fs2 of
                Inl e \<Rightarrow> (Inl e, w1\<lparr>files := fs2\<rparr>)
              | Inr fs3 \<Rightarrow>
                 (let useSharp = (library \<noteq> None);
                      w3 = say (Log (if useSharp then ''Using Sharp for image optimization...''
                                     else ''Sharp not available, copying original images...''))
                             (w1\<lparr>files := fs3\<rparr>);
                      pagesDir = path_join [sourceDir, ''pages'']
                  in
                  case readdirSync pagesDir (files w3) of
                    Inl e \<Rightarrow> (Inl e, w3)
                  | Inr names \<Rightarrow>
                     (let imageFiles = filter is_image_file names;
                          w4 = say (Log (''Processing '' @ string_of_nat (length imageFiles)
                                          @ '' images...'')) w3
                      in
                      case process_pages library pagesDir optimizedDir imageFiles w4 of
                        (Inl e, w5) \<Rightarrow> (Inl e, w5)
                      | (Inr _, w5) \<Rightarrow> finish_build buildDir useSharp w5)))))"

text \<open>The script's last line: \<^verbatim>\<open>buildForCloudflare().catch(console.error)\<close>.\<close>

definition build_cloudflare :: "sharp option \<Rightarrow> world \<Rightarrow> world" where
  "build_cloudflare library w =
     (case buildForCloudflare library w of
        (Inl e, w1) \<Rightarrow> say (ErrVal e) w1
      | (Inr _, w1) \<Rightarrow> w1)"


section \<open>Vocabulary of the proofs\<close>



definition occurs_at :: "string \<Rightarrow> string \<Rightarrow> nat \<Rightarrow> bool" where
  "occurs_at pat s j \<longleftrightarrow> j \<le> length s \<and> prefix pat (drop j s)"

fun no_dollar_patterns :: "string \<Rightarrow> bool" where
  "no_dollar_patterns (c # d # cs) =
     (\<not> (c = CHR ''$'' \<and> (d = CHR ''$'' \<or> d = CHR ''&'' \<or> d = CHR ''`'' \<or> d = CHR 0x27))
      \<and> no_dollar_patterns (d # cs))"
| "no_dollar_patterns cs = True"

text \<open>
  The vocabulary of the local optimizer: a file system that only gained files, a path
  that can be written, the two output paths and the two commands of one conversion,
  when a conversion succeeds, the (file, preset) pairs in the order the loops visit
  them, and what the manifest and the console hold for them.
\<close>

definition files_added :: "fsys \<Rightarrow> fsys \<Rightarrow> bool" where
  "files_added fs fs' \<longleftrightarrow>
     (\<forall>k. (node_at fs' k = Some Dir \<longleftrightarrow> node_at fs k = Some Dir)
          \<and> (node_at fs k \<noteq> None \<longrightarrow> node_at fs' k \<noteq> None))"

definition writable :: "fsys \<Rightarrow> string \<Rightarrow> bool" where
  "writable fs p \<longleftrightarrow>
     node_at fs (canon p) \<noteq> Some Dir \<and> node_at fs (parent (canon p)) = Some Dir"

definition webp_path :: "string \<Rightarrow> string \<Rightarrow> config \<Rightarrow> string" where
  "webp_path outputDir filename config =
     path_join [outputDir, parse_name filename @ config.suffix config @ ''.webp'']"

definition jpeg_path :: "string \<Rightarrow> string \<Rightarrow> config \<Rightarrow> string" where
  "jpeg_path outputDir filename config =
     path_join [outputDir, parse_name filename @ config.suffix config @ ''.jpg'']"

definition webp_step_ok :: "tool \<Rightarrow> fsys \<Rightarrow> string \<Rightarrow> string \<Rightarrow> string \<Rightarrow> config \<Rightarrow> bool" where
  "webp_step_ok tool fs inputPath outputDir filename config \<longleftrightarrow>
     \<not> isl (tool (webp_command inputPath config (webp_path outputDir filename config)))
     \<and> writable fs (webp_path outputDir filename config)"

definition conversion_ok :: "tool \<Rightarrow> fsys \<Rightarrow> string \<Rightarrow> string \<Rightarrow> string \<Rightarrow> config \<Rightarrow> bool" where
  "conversion_ok tool fs inputPath outputDir filename config \<longleftrightarrow>
     webp_step_ok tool fs inputPath outputDir filename config
     \<and> \<not> isl (tool (jpeg_command inputPath config (jpeg_path outputDir filename config)))
     \<and> writable fs (jpeg_path outputDir filename config)"


fun err_labels :: "console_line list \<Rightarrow> string list" where
  "err_labels [] = []"
| "err_labels (ErrMsg label e # rest) = label # err_labels rest"
| "err_labels (l # rest) = err_labels rest"

definition pairs_of :: "string list \<Rightarrow> (string \<times> string \<times> config) list" where
  "pairs_of imageFiles =
     concat (map (\<lambda>f. map (\<lambda>(c, cfg). (f, c, cfg)) configs) imageFiles)"

definition pair_ok :: "tool \<Rightarrow> fsys \<Rightarrow> string \<Rightarrow> string \<Rightarrow> string \<times> string \<times> config \<Rightarrow> bool" where
  "pair_ok tool fs sourceDir outputBaseDir pr =
     (case pr of (f, c, cfg) \<Rightarrow>
        conversion_ok tool fs (path_join [sourceDir, f]) (path_join [outputBaseDir, c]) f cfg)"




definition failure_labels ::
    "tool \<Rightarrow> fsys \<Rightarrow> string \<Rightarrow> string \<Rightarrow> (string \<times> string \<times> config) list \<Rightarrow> string list" where
  "failure_labels tool fs sourceDir outputBaseDir prs =
     map (\<lambda>(f, c, cfg). ''Error processing '' @ f @ '':'')
       (filter (\<lambda>pr. \<not> pair_ok tool fs sourceDir outputBaseDir pr) prs)"





section \<open>Path lemmas\<close>


lemma segments_not_Nil [simp]: "segments p \<noteq> []"
  by (induction p) (auto split: list.splits)























section \<open>Text replacement lemmas\<close>

lemma index_of_None: "index_of pat s = None \<Longrightarrow> \<not> prefix pat (drop j s)"
proof (induction s arbitrary: j)
  case Nil
  then show ?case by (auto split: if_splits)
next
  case (Cons c cs)
  then show ?case by (cases j) (auto split: if_splits)
qed

lemma index_of_Some:
  "index_of pat s = Some i \<Longrightarrow>
     i \<le> length s \<and> prefix pat (drop i s) \<and> (\<forall>j<i. \<not> prefix pat (drop j s))"
proof (induction s arbitrary: i)
  case Nil
  then show ?case by (auto split: if_splits)
next
  case (Cons c cs)
  show ?case
  proof (cases "prefix pat (c # cs)")
    case True
    with Cons.prems show ?thesis by simp
  next
    case False
    with Cons.prems obtain i' where i': "index_of pat cs = Some i'" "i = Suc i'"
      by auto
    from Cons.IH[OF i'(1)] False i'(2) show ?thesis
      by (auto simp: less_Suc_eq_0_disj)
  qed
qed

lemma index_of_first:
  assumes "occurs_at pat s i" and "\<forall>j<i. \<not> occurs_at pat s j"
  shows "index_of pat s = Some i"
proof (cases "index_of pat s")
  case None
  with index_of_None[of pat s i] assms(1) show ?thesis by (simp add: occurs_at_def)
next
  case (Some k)
  note k = index_of_Some[OF Some]
  have "\<not> k < i" using assms(2) k by (auto simp: occurs_at_def)
  moreover have "\<not> i < k" using assms(1) k by (auto simp: occurs_at_def)
  ultimately show ?thesis using Some by simp
qed

lemma get_substitution_plain:
  "no_dollar_patterns t \<Longrightarrow> get_substitution m b a t = t"
  by (induction t rule: no_dollar_patterns.induct) auto

lemma picture_block_plain: "no_dollar_patterns picture_block"
  unfolding picture_block_def by code_simp

lemma js_replace_picture:
  "js_replace img_fragment picture_block s =
     (case index_of img_fragment s of
        None \<Rightarrow> s
      | Some i \<Rightarrow> take i s @ picture_block @ drop (i + length img_fragment) s)"
  by (simp add: js_replace_def get_substitution_plain[OF picture_block_plain] split: option.splits)

lemma length_img_fragment: "length img_fragment = 84"
  unfolding img_fragment_def by simp

lemma length_picture_block: "length picture_block = 585"
  unfolding picture_block_def by simp



lemma fragment_border_free:
  "0 < d \<Longrightarrow> d < 84 \<Longrightarrow> \<not> prefix (drop d img_fragment) img_fragment"
proof -
  have "list_all (\<lambda>d. \<not> prefix (drop d img_fragment) img_fragment) [1..<84]"
    unfolding img_fragment_def by code_simp
  then show "0 < d \<Longrightarrow> d < 84 \<Longrightarrow> \<not> prefix (drop d img_fragment) img_fragment"
    by (simp add: list_all_iff)
qed

lemma fragment_tail_not_block_head:
  "0 < e \<Longrightarrow> e < 84 \<Longrightarrow> \<not> prefix (drop e img_fragment) picture_block"
proof -
  have "list_all (\<lambda>e. \<not> prefix (drop e img_fragment) picture_block) [1..<84]"
    unfolding img_fragment_def picture_block_def by code_simp
  then show "0 < e \<Longrightarrow> e < 84 \<Longrightarrow> \<not> prefix (drop e img_fragment) picture_block"
    by (simp add: list_all_iff)
qed

lemma fragment_not_in_block: "\<not> prefix img_fragment (drop m picture_block)"
proof -
  have "index_of img_fragment picture_block = None"
    unfolding img_fragment_def picture_block_def by code_simp
  then show ?thesis by (rule index_of_None)
qed

lemma block_tail_not_fragment_head:
  "501 < m \<Longrightarrow> m < 585 \<Longrightarrow> \<not> prefix (drop m picture_block) img_fragment"
proof -
  define tl84 where "tl84 = drop 501 picture_block"
  have tl: \<open>tl84 = ''          <img src="pages/page${i}-desktop.jpg" />\<newline>        </picture>\<newline>      </div>`;''\<close>
    unfolding tl84_def picture_block_def by code_simp
  have "list_all (\<lambda>m. \<not> prefix (drop m tl84) img_fragment) [1..<84]"
    unfolding tl img_fragment_def by code_simp
  then have "0 < k \<Longrightarrow> k < 84 \<Longrightarrow> \<not> prefix (drop k tl84) img_fragment" for k
    by (simp add: list_all_iff)
  from this[of "m - 501"] show "501 < m \<Longrightarrow> m < 585 \<Longrightarrow> \<not> prefix (drop m picture_block) img_fragment"
    by (simp add: tl84_def)
qed

lemma prefix_append_short:
  "prefix a (b @ c) \<Longrightarrow> length a \<le> length b \<Longrightarrow> prefix a b"
  by (auto simp: prefix_def append_eq_append_conv2)

lemma prefix_append_long:
  "prefix a (b @ c) \<Longrightarrow> length b \<le> length a \<Longrightarrow> prefix b a \<and> prefix (drop (length b) a) c"
  by (auto simp: prefix_def append_eq_append_conv2)

lemma occurs_at_split:
  assumes "occurs_at img_fragment html i"
  shows "html = take i html @ img_fragment @ drop (i + 84) html"
proof -
  from assms obtain zs where zs: "drop i html = img_fragment @ zs"
    by (auto simp: occurs_at_def prefix_def)
  have "drop (i + 84) html = drop 84 (drop i html)"
    by (simp add: add.commute)
  also have "\<dots> = zs"
    using zs by (simp add: length_img_fragment)
  finally show ?thesis
    using zs by (metis append_take_drop_id)
qed

lemma rewrite_html_first:
  assumes "occurs_at img_fragment html i" and "\<forall>j<i. \<not> occurs_at img_fragment html j"
  shows "rewrite_html True html = take i html @ picture_block @ drop (i + 84) html"
  using index_of_first[OF assms]
  by (simp add: rewrite_html_def js_replace_picture length_img_fragment)


text \<open>
  Claim C10. When the fragment occurs in the HTML, with its first occurrence at
  position \<open>i\<close>, the occurrences of the fragment in the rewritten HTML are exactly the
  later occurrences of the input, each moved by the difference in length between the
  picture block and the fragment (501 characters): the first occurrence is gone, every
  later one is still there, and the replacement creates no new one.
\<close>

theorem html_rewrite_only_first_occurrence:
  assumes first: "occurs_at img_fragment html i" "\<forall>j<i. \<not> occurs_at img_fragment html j"
  shows "occurs_at img_fragment (rewrite_html True html) j \<longleftrightarrow>
         (\<exists>k. i < k \<and> occurs_at img_fragment html k \<and> j = k + 501)"
proof -
  define pre where "pre = take i html"
  define post where "post = drop (i + 84) html"
  have i_le: "i \<le> length html" using first(1) by (simp add: occurs_at_def)
  have len_pre: "length pre = i" using i_le by (simp add: pre_def)
  have html: "html = pre @ img_fragment @ post"
    unfolding pre_def post_def by (rule occurs_at_split[OF first(1)])
  have R: "rewrite_html True html = pre @ picture_block @ post"
    unfolding pre_def post_def by (rule rewrite_html_first[OF first])
  note L = length_img_fragment and B = length_picture_block
  show ?thesis
  proof
    assume occ: "occurs_at img_fragment (rewrite_html True html) j"
    then have j_le: "j \<le> i + 585 + length post"
      and pj: "prefix img_fragment (drop j (pre @ picture_block @ post))"
      by (simp_all add: occurs_at_def R len_pre B)
    consider (a) "j < i" | (b) "i \<le> j" "j < i + 585" | (c) "i + 585 \<le> j" by linarith
    then show "\<exists>k. i < k \<and> occurs_at img_fragment html k \<and> j = k + 501"
    proof cases
      case a
      define u where "u = drop j pre"
      have lu: "length u = i - j" by (simp add: u_def len_pre)
      have pu: "prefix img_fragment (u @ picture_block @ post)"
        using pj a by (simp add: u_def len_pre)
      have dj: "drop j html = u @ img_fragment @ post"
        using a by (subst html) (simp add: u_def len_pre)
      show ?thesis
      proof (cases "84 \<le> length u")
        case True
        then have "prefix img_fragment u"
          using prefix_append_short[OF pu] by (simp add: L)
        then have "prefix img_fragment (drop j html)"
          unfolding dj by (simp add: prefix_def) (metis append.assoc)
        then have "occurs_at img_fragment html j"
          using a i_le by (simp add: occurs_at_def)
        with first(2) a show ?thesis by blast
      next
        case False
        then have "length u \<le> length img_fragment" by (simp add: L)
        from prefix_append_long[OF pu this]
        have "prefix (drop (length u) img_fragment) (picture_block @ post)" by simp
        then have "prefix (drop (length u) img_fragment) picture_block"
          by (rule prefix_append_short) (simp add: L B)
        moreover have "0 < length u" "length u < 84" using a False lu by simp_all
        ultimately show ?thesis using fragment_tail_not_block_head by blast
      qed
    next
      case b
      define m where "m = j - i"
      have m: "m < 585" "j = i + m" using b by (simp_all add: m_def)
      have pm: "prefix img_fragment (drop m picture_block @ post)"
        using pj m by (simp add: len_pre B)
      show ?thesis
      proof (cases "m \<le> 501")
        case True
        then have "prefix img_fragment (drop m picture_block)"
          using prefix_append_short[OF pm] by (simp add: L B)
        with fragment_not_in_block show ?thesis by blast
      next
        case False
        then have "length (drop m picture_block) \<le> length img_fragment"
          by (simp add: L B)
        from prefix_append_long[OF pm this]
        have "prefix (drop m picture_block) img_fragment" by simp
        with block_tail_not_fragment_head[of m] False m(1) show ?thesis by simp
      qed
    next
      case c
      define k where "k = j - 501"
      have k: "j = k + 501" "i + 84 \<le> k" using c by (simp_all add: k_def)
      have "drop j (pre @ picture_block @ post) = drop (k - (i + 84)) post"
        using k by (simp add: len_pre B add.commute)
      moreover have "drop k html = drop (k - (i + 84)) post"
        using k by (subst html) (simp add: len_pre L add.commute)
      moreover have "k \<le> length html"
        using j_le k by (subst html) (simp add: len_pre L)
      ultimately have "occurs_at img_fragment html k"
        using pj by (simp add: occurs_at_def)
      with k show ?thesis by auto
    qed
  next
    assume "\<exists>k. i < k \<and> occurs_at img_fragment html k \<and> j = k + 501"
    then obtain k where k: "i < k" "occurs_at img_fragment html k" "j = k + 501"
      by blast
    have k_le: "k \<le> length html" and pk: "prefix img_fragment (drop k html)"
      using k(2) by (simp_all add: occurs_at_def)
    have far: "i + 84 \<le> k"
    proof (rule ccontr)
      assume "\<not> i + 84 \<le> k"
      then have d: "0 < k - i" "k - i < 84" using k(1) by simp_all
      have "drop k html = drop (k - i) img_fragment @ post"
        using k(1) d by (subst html) (simp add: len_pre L)
      with pk have "prefix img_fragment (drop (k - i) img_fragment @ post)" by simp
      from prefix_append_long[OF this]
      have "prefix (drop (k - i) img_fragment) img_fragment" by (simp add: L)
      with fragment_border_free[OF d] show False by simp
    qed
    have "drop j (pre @ picture_block @ post) = drop (k - (i + 84)) post"
      using k(3) far by (simp add: len_pre B add.commute)
    moreover have "drop k html = drop (k - (i + 84)) post"
      using far by (subst html) (simp add: len_pre L add.commute)
    moreover have "j \<le> length (pre @ picture_block @ post)"
      using k_le k(3) far by (subst (asm) html) (simp add: len_pre L B)
    ultimately show "occurs_at img_fragment (rewrite_html True html) j"
      using pk by (simp add: occurs_at_def R)
  qed
qed

theorem html_rewrite_only_first_occurrence_witness:
  "occurs_at img_fragment
     (rewrite_html True (''ab'' @ img_fragment @ ''cd'' @ img_fragment @ ''e'')) 589
   \<and> \<not> occurs_at img_fragment
     (rewrite_html True (''ab'' @ img_fragment @ ''cd'' @ img_fragment @ ''e'')) 2
   \<and> \<not> occurs_at img_fragment
     (rewrite_html True (''ab'' @ img_fragment @ ''cd'' @ img_fragment @ ''e'')) 88"
proof -
  let ?html = "''ab'' @ img_fragment @ ''cd'' @ img_fragment @ ''e''"
  have at2: "occurs_at img_fragment ?html 2" by code_simp
  have at88: "occurs_at img_fragment ?html 88" by code_simp
  have "\<not> occurs_at img_fragment ?html 0" "\<not> occurs_at img_fragment ?html 1"
    by code_simp+
  then have first: "\<forall>j<2. \<not> occurs_at img_fragment ?html j"
    by (simp add: less_Suc_eq numeral_2_eq_2)
  note iff = html_rewrite_only_first_occurrence[OF at2 first]
  have "occurs_at img_fragment (rewrite_html True ?html) 589"
    using iff[of 589] at88 by auto
  moreover have "\<not> occurs_at img_fragment (rewrite_html True ?html) 2"
    using iff[of 2] by simp
  moreover have "\<not> occurs_at img_fragment (rewrite_html True ?html) 88"
    using iff[of 88] by simp
  ultimately show ?thesis by simp
qed

section \<open>The preset catalogs\<close>

text \<open>
  Claim C7. The local optimizer's catalog is mobile (800, 75, -mobile), tablet
  (1200, 80, -tablet), desktop (1920, 85, -desktop) and thumbnail (300, 70, -thumb), in
  this order; the packaging pipeline's catalog is mobile (800, 75), tablet (1200, 80)
  and desktop (1920, 85), and has no thumbnail preset.
\<close>

theorem preset_catalogs_fixed:
  "map (\<lambda>(name, c). (name, width c, quality c, config.suffix c)) configs =
     [(''mobile'', 800, 75, ''-mobile''), (''tablet'', 1200, 80, ''-tablet''),
      (''desktop'', 1920, 85, ''-desktop''), (''thumbnail'', 300, 70, ''-thumb'')]
   \<and> map (\<lambda>(name, c). (name, width c, quality c)) cloudflare_configs =
     [(''mobile'', 800, 75), (''tablet'', 1200, 80), (''desktop'', 1920, 85)]
   \<and> map_of cloudflare_configs ''thumbnail'' = None"
  by (simp add: configs_def cloudflare_configs_def)

section \<open>File system lemmas and the rewrite of \<^verbatim>\<open>dist/index.html\<close>\<close>


lemma writeFileSync_Inr:
  assumes "writeFileSync p d fs = Inr fs'"
  shows "fs' = AList.update (canon p) (File d) fs \<and> node_at fs (canon p) \<noteq> Some Dir
         \<and> node_at fs (parent (canon p)) = Some Dir"
  using assms
  by (auto simp: writeFileSync_def Let_def split: option.splits node.splits)











section \<open>The local optimizer, call by call\<close>

lemma files_added_refl [simp]: "files_added fs fs"
  by (simp add: files_added_def)


lemma writeFileSync_iff:
  "writeFileSync p d fs = (if writable fs p then Inr (AList.update (canon p) (File d) fs)
     else Inl (SystemError (case node_at fs (canon p) of Some Dir \<Rightarrow> EISDIR
          | _ \<Rightarrow> (case node_at fs (parent (canon p)) of None \<Rightarrow> ENOENT | _ \<Rightarrow> ENOTDIR)) p))"
  by (auto simp: writeFileSync_def writable_def Let_def split: option.splits node.splits)


lemma writeFileSync_Inl_iff:
  "(\<exists>e. writeFileSync p d fs = Inl e) \<longleftrightarrow> \<not> writable fs p"
  by (auto simp: writeFileSync_iff)




text \<open>What one call of \<open>optimizeImage\<close> does, case by case.\<close>

lemma err_labels_append [simp]: "err_labels (xs @ ys) = err_labels xs @ err_labels ys"
  by (induction xs rule: err_labels.induct) simp_all









lemma failure_labels_Cons:
  "failure_labels tool fs src out (pr # prs) =
     failure_labels tool fs src out [pr] @ failure_labels tool fs src out prs"
  by (simp add: failure_labels_def)


lemma failure_labels_Nil [simp]: "failure_labels tool fs src out [] = []"
  by (simp add: failure_labels_def)


lemma map_entry_cong_value:
  "map_of xs k = Some v \<Longrightarrow> f v = g v \<Longrightarrow> AList.map_entry k f xs = AList.map_entry k g xs"
  by (induction xs) (auto split: if_splits)






lemma pairs_of_Nil [simp]: "pairs_of [] = []"
  by (simp add: pairs_of_def)




















end
